theory Spec2Isabelle
  imports Main
begin

section \<open>JavaScript values\<close>

text \<open>
  The utilities of \<^verbatim>\<open>src/core/services/utils/utils.ts\<close> pass arbitrary JavaScript values
  around: promise results, rejection reasons, thrown values. Only two operations of the
  language are applied to them by the functions modelled here: the conversion to a boolean
  (\<^verbatim>\<open>!x\<close>, \<^verbatim>\<open>!!x\<close>, \<^verbatim>\<open>if (x)\<close>) and the property read \<^verbatim>\<open>e.message\<close>. Values are
  plain data; where a function can be handed a promise in the place of a value (the
  fallback of \<^verbatim>\<open>ignoreErrors\<close>), that argument has a type of its own.
\<close>

datatype number = NaN | Num int

datatype jsval =
    VUndefined
  | VNull
  | VBool bool
  | VNum number
  | VStr string
  | VObj "(string \<times> jsval) list"

text \<open>ToBoolean: the falsy values are undefined, null, false, 0, NaN and the empty string.\<close>

fun truthy :: "jsval \<Rightarrow> bool" where
  "truthy VUndefined = False"
| "truthy VNull = False"
| "truthy (VBool b) = b"
| "truthy (VNum NaN) = False"
| "truthy (VNum (Num n)) = (n \<noteq> 0)"
| "truthy (VStr s) = (s \<noteq> [])"
| "truthy (VObj ps) = True"

text \<open>The error the runtime throws when a property of undefined or null is read.\<close>

definition TypeError :: jsval where
  "TypeError = VObj [(''name'', VStr ''TypeError'')]"

text \<open>
  \<^verbatim>\<open>e.message\<close>: reading a property of undefined or null throws a TypeError (\<open>Inl\<close>);
  a primitive boolean, number or string has no such property; an object gives the
  property when it has one.
\<close>

fun get_message :: "jsval \<Rightarrow> jsval + jsval" where
  "get_message VUndefined = Inl TypeError"
| "get_message VNull = Inl TypeError"
| "get_message (VObj ps) = Inr (case map_of ps ''message'' of None \<Rightarrow> VUndefined | Some m \<Rightarrow> m)"
| "get_message v = Inr VUndefined"

text \<open>An \<^verbatim>\<open>Error\<close> object with the given message.\<close>

definition Error :: "string \<Rightarrow> jsval" where
  "Error msg = VObj [(''message'', VStr msg)]"

text \<open>An array argument that the caller may have left null or undefined.\<close>

datatype 'a nullable = JNull | JUndefined | JArray "'a list"

section \<open>Promises\<close>

text \<open>
  A promise is described by the tick of the event loop at which it settles and by its
  outcome; \<open>None\<close> is a promise that never settles. The reactions of a promise run in the
  tick in which it settles, or in the tick in which they are registered when the promise
  had settled before: \<open>observe now\<close> gives the promise as a reaction registered at tick
  \<open>now\<close> sees it. Microtask order inside one tick is not modelled.
\<close>

datatype 'a outcome = Resolved 'a | Rejected jsval

type_synonym 'a promise = "(nat \<times> 'a outcome) option"

fun observe :: "nat \<Rightarrow> 'a promise \<Rightarrow> 'a promise" where
  "observe now None = None"
| "observe now (Some (t, out)) = Some (max now t, out)"

text \<open>
  The resolving functions of a native promise: the first call of \<^verbatim>\<open>resolve\<close> or
  \<^verbatim>\<open>reject\<close> settles the promise, every later call returns without effect. Here \<open>None\<close>
  is the promise still pending.
\<close>

definition native_settle :: "nat \<Rightarrow> 'a outcome \<Rightarrow> 'a promise \<Rightarrow> 'a promise" where
  "native_settle t out p = (case p of None \<Rightarrow> Some (t, out) | Some s \<Rightarrow> Some s)"

text \<open>
  \<^verbatim>\<open>Promise.all\<close>, called at tick \<open>now\<close>: rejects as soon as one of the promises rejects
  (the earliest rejection; at equal ticks the one first in the array), never settles when
  no promise rejects and one never settles, and otherwise resolves with the array of
  values once the last promise has resolved.
\<close>

fun first_rejection :: "'a promise list \<Rightarrow> (nat \<times> jsval) option" where
  "first_rejection [] = None"
| "first_rejection (Some (t, Rejected e) # ps) =
     (case first_rejection ps of
        None \<Rightarrow> Some (t, e)
      | Some (t', e') \<Rightarrow> if t' < t then Some (t', e') else Some (t, e))"
| "first_rejection (p # ps) = first_rejection ps"

fun all_values :: "'a promise list \<Rightarrow> (nat \<times> 'a list) option" where
  "all_values [] = Some (0, [])"
| "all_values (Some (t, Resolved v) # ps) =
     (case all_values ps of None \<Rightarrow> None | Some (t', vs) \<Rightarrow> Some (max t t', v # vs))"
| "all_values (p # ps) = None"

definition Promise_all :: "'a promise list \<Rightarrow> nat \<Rightarrow> 'a list promise" where
  "Promise_all ps now =
     (case first_rejection (map (observe now) ps) of
        Some (t, e) \<Rightarrow> Some (t, Rejected e)
      | None \<Rightarrow>
          (case all_values (map (observe now) ps) of
             None \<Rightarrow> None
           | Some (t, vs) \<Rightarrow> Some (max now t, Resolved vs)))"

text \<open>
  \<^verbatim>\<open>p.finally(onFinally)\<close>, registered at tick \<open>now\<close>. The callback runs once \<open>p\<close> has
  settled, whatever the outcome. When the callback throws, or returns a promise that
  rejects, the result rejects with that reason; otherwise the result takes the outcome of
  \<open>p\<close>, after the promise returned by the callback has resolved.
\<close>

datatype callback_result = CbThrows jsval | CbValue jsval | CbPromise "jsval promise"

definition promise_finally :: "jsval promise \<Rightarrow> (nat \<Rightarrow> callback_result) \<Rightarrow> nat \<Rightarrow> jsval promise" where
  "promise_finally p onFinally now =
     (case observe now p of
        None \<Rightarrow> None
      | Some (t, out) \<Rightarrow>
          (case onFinally t of
             CbThrows e \<Rightarrow> Some (t, Rejected e)
           | CbValue v \<Rightarrow> Some (t, out)
           | CbPromise None \<Rightarrow> None
           | CbPromise (Some (t', Rejected e')) \<Rightarrow> Some (max t t', Rejected e')
           | CbPromise (Some (t', Resolved v)) \<Rightarrow> Some (max t t', out)))"

section \<open>getUniqueId\<close>

text \<open>
  \<^verbatim>\<open>
  protected uniqueIds: {[name: string]: number} = {};

  getUniqueId(name: string): number {
      if (!this.uniqueIds[name]) {
          this.uniqueIds[name] = 0;
      }
      return ++this.uniqueIds[name];
  }
  \<close>
  The registry is the object created by the literal \<^verbatim>\<open>{}\<close>. Its own properties are a
  map from names to numbers, empty when the service is created; its prototype is
  \<^verbatim>\<open>Object.prototype\<close>, so reading a name that the object does not own gives the
  property of that name of \<^verbatim>\<open>Object.prototype\<close> when there is one (a function, or for
  \<^verbatim>\<open>__proto__\<close> the prototype object itself), and undefined otherwise. Numbers are
  integers or NaN; the counters stay far below the limit of exact integers.
\<close>

type_synonym uniqueIds = "string \<rightharpoonup> number"

definition Object_prototype :: "string list" where
  "Object_prototype =
     [''constructor'', ''hasOwnProperty'', ''isPrototypeOf'', ''propertyIsEnumerable'',
      ''toLocaleString'', ''toString'', ''valueOf'', ''__proto__'',
      ''__defineGetter__'', ''__defineSetter__'', ''__lookupGetter__'', ''__lookupSetter__'']"

datatype property = Own number | Inherited | Absent

definition get_property :: "uniqueIds \<Rightarrow> string \<Rightarrow> property" where
  "get_property ids name =
     (case ids name of
        Some v \<Rightarrow> Own v
      | None \<Rightarrow> if name \<in> set Object_prototype then Inherited else Absent)"

text \<open>
  An assignment creates or updates an own property, except for \<^verbatim>\<open>__proto__\<close>, whose
  setter ignores a value that is not an object.
\<close>

definition set_property :: "uniqueIds \<Rightarrow> string \<Rightarrow> number \<Rightarrow> uniqueIds" where
  "set_property ids name v = (if name = ''__proto__'' then ids else ids(name \<mapsto> v))"

text \<open>The operator \<^verbatim>\<open>!\<close>: undefined, 0 and NaN are falsy, functions and objects truthy.\<close>

fun not_property :: "property \<Rightarrow> bool" where
  "not_property Absent = True"
| "not_property Inherited = False"
| "not_property (Own NaN) = True"
| "not_property (Own (Num n)) = (n = 0)"

text \<open>The operator \<^verbatim>\<open>++\<close>: the operand converted to a number, plus one.\<close>

fun to_number :: "property \<Rightarrow> number" where
  "to_number Absent = NaN"
| "to_number Inherited = NaN"
| "to_number (Own v) = v"

fun add_one :: "number \<Rightarrow> number" where
  "add_one NaN = NaN"
| "add_one (Num n) = Num (n + 1)"

definition getUniqueId :: "string \<Rightarrow> uniqueIds \<Rightarrow> number \<times> uniqueIds" where
  "getUniqueId name ids =
     (let ids1 = (if not_property (get_property ids name) then set_property ids name (Num 0) else ids);
          v = add_one (to_number (get_property ids1 name))
      in (v, set_property ids1 name v))"

text \<open>A sequence of calls on one service instance, with the values they return.\<close>

fun getUniqueId_calls :: "string list \<Rightarrow> uniqueIds \<Rightarrow> number list \<times> uniqueIds" where
  "getUniqueId_calls [] ids = ([], ids)"
| "getUniqueId_calls (name # names) ids =
     (case getUniqueId name ids of
        (v, ids') \<Rightarrow> (case getUniqueId_calls names ids' of (vs, ids'') \<Rightarrow> (v # vs, ids'')))"

section \<open>ignoreErrors\<close>

text \<open>
  \<^verbatim>\<open>
  async ignoreErrors<Result, Fallback>(promise: Promise<Result>, fallback?: Fallback)
      : Promise<Result | Fallback | undefined> {
      try {
          const result = await promise;
          return result;
      } catch (error) {
          // Ignore errors.
          return fallback;
      }
  }
  \<close>
  The optional parameter is \<open>None\<close> when the caller leaves it out; it then reads as
  undefined. The type \<^verbatim>\<open>Fallback\<close> is unconstrained, so the fallback is a plain value
  or a promise. An \<^verbatim>\<open>async\<close> function that returns a plain value resolves with it;
  one that returns a promise adopts it: its own promise settles as the returned promise
  does, and never when that one never settles. \<open>now\<close> is the tick of the call.
\<close>

datatype fallback = FallbackValue jsval | FallbackPromise "jsval promise"

text \<open>\<^verbatim>\<open>return fallback\<close>, executed at tick \<open>t\<close>.\<close>

fun return_fallback :: "nat \<Rightarrow> fallback option \<Rightarrow> jsval promise" where
  "return_fallback t None = Some (t, Resolved VUndefined)"
| "return_fallback t (Some (FallbackValue v)) = Some (t, Resolved v)"
| "return_fallback t (Some (FallbackPromise q)) = observe t q"

definition ignoreErrors :: "jsval promise \<Rightarrow> fallback option \<Rightarrow> nat \<Rightarrow> jsval promise" where
  "ignoreErrors promise fallback now =
     (case observe now promise of
        None \<Rightarrow> None
      | Some (t, Resolved result) \<Rightarrow> Some (t, Resolved result)
      | Some (t, Rejected error) \<Rightarrow> return_fallback t fallback)"

section \<open>allPromises and allPromisesIgnoringErrors\<close>

text \<open>
  \<^verbatim>\<open>
  async allPromises(promises: Promise<unknown>[]): Promise<void> {
      if (!promises || !promises.length) {
          return Promise.resolve();
      }
      const getPromiseError = async (promise): Promise<Error | void> => {
          try {
              await promise;
          } catch (error) {
              return error;
          }
      };
      const errors = await Promise.all(promises.map(getPromiseError));
      const error = errors.find(error => !!error);
      if (error) {
          throw error;
      }
  }
  \<close>
\<close>

definition getPromiseError :: "jsval promise \<Rightarrow> nat \<Rightarrow> jsval promise" where
  "getPromiseError promise now =
     (case observe now promise of
        None \<Rightarrow> None
      | Some (t, Resolved v) \<Rightarrow> Some (t, Resolved VUndefined)
      | Some (t, Rejected error) \<Rightarrow> Some (t, Resolved error))"

text \<open>\<^verbatim>\<open>Array.prototype.find\<close>: the first element that satisfies the test, else undefined.\<close>

definition array_find :: "(jsval \<Rightarrow> bool) \<Rightarrow> jsval list \<Rightarrow> jsval" where
  "array_find test xs = (case find test xs of None \<Rightarrow> VUndefined | Some x \<Rightarrow> x)"

definition allPromises :: "jsval promise nullable \<Rightarrow> nat \<Rightarrow> jsval promise" where
  "allPromises promises now =
     (case promises of
        JNull \<Rightarrow> Some (now, Resolved VUndefined)
      | JUndefined \<Rightarrow> Some (now, Resolved VUndefined)
      | JArray ps \<Rightarrow>
          if length ps = 0 then Some (now, Resolved VUndefined)
          else
            (case Promise_all (map (\<lambda>p. getPromiseError p now) ps) now of
               None \<Rightarrow> None
             | Some (t, Rejected e) \<Rightarrow> Some (t, Rejected e)
             | Some (t, Resolved errors) \<Rightarrow>
                 (let error = array_find truthy errors
                  in if truthy error then Some (t, Rejected error)
                     else Some (t, Resolved VUndefined))))"


section \<open>executeOrderedPromises\<close>

text \<open>
  \<^verbatim>\<open>
  export type OrderedPromiseData = {
      function: () => Promise<unknown>;
      blocking?: boolean;
  };

  executeOrderedPromises(orderedPromisesData: OrderedPromiseData[]): Promise<void> {
      const promises: Promise<void>[] = [];
      let dependency = Promise.resolve();

      // Execute all the processes in order.
      for (const i in orderedPromisesData) {
          const data = orderedPromisesData[i];
          // Add the process to the dependency stack.
          const promise = dependency.finally(() => {
              try {
                  return data.function();
              } catch (e) {
                  this.logger.error(e.message);

                  return;
              }
          });
          promises.push(promise);

          // If the new process is blocking, we set it as the dependency.
          if (data.blocking) {
              dependency = promise;
          }
      }

      // Return when all promises are done.
      return this.allPromises(promises);
  }
  \<close>
  A task, started at some tick, either throws or returns a promise. A \<^verbatim>\<open>blocking\<close> left
  out reads as false. Besides the promises, the model of the loop records for each task
  the tick at which it is started (\<open>None\<close>: never) and what the logger receives.
\<close>

datatype task_result = Throws jsval | Returns "jsval promise"

record OrderedPromiseData =
  function_task :: "nat \<Rightarrow> task_result"
  blocking :: bool

text \<open>The callback given to \<^verbatim>\<open>finally\<close>, run at tick \<open>t\<close>.\<close>

definition start_task :: "OrderedPromiseData \<Rightarrow> nat \<Rightarrow> callback_result" where
  "start_task data t =
     (case function_task data t of
        Returns q \<Rightarrow> CbPromise q
      | Throws e \<Rightarrow>
          (case get_message e of
             Inl err \<Rightarrow> CbThrows err
           | Inr m \<Rightarrow> CbValue VUndefined))"

text \<open>What that callback passes to \<^verbatim>\<open>this.logger.error\<close>.\<close>

definition start_task_log :: "OrderedPromiseData \<Rightarrow> nat \<Rightarrow> jsval list" where
  "start_task_log data t =
     (case function_task data t of
        Returns q \<Rightarrow> []
      | Throws e \<Rightarrow> (case get_message e of Inl err \<Rightarrow> [] | Inr m \<Rightarrow> [m]))"

record execution =
  promises :: "jsval promise list"
  dependency :: "jsval promise"
  started :: "nat option list"
  logged :: "jsval list list"

fun start_tick :: "nat \<Rightarrow> jsval promise \<Rightarrow> nat option" where
  "start_tick now None = None"
| "start_tick now (Some (t, out)) = Some (max now t)"

fun ordered_loop :: "OrderedPromiseData list \<Rightarrow> nat \<Rightarrow> execution \<Rightarrow> execution" where
  "ordered_loop [] now ex = ex"
| "ordered_loop (data # rest) now ex =
     (let promise = promise_finally (dependency ex) (start_task data) now;
          ex1 = ex\<lparr>promises := promises ex @ [promise],
                   started := started ex @ [start_tick now (dependency ex)],
                   logged := logged ex @
                     [case start_tick now (dependency ex) of
                        None \<Rightarrow> []
                      | Some t \<Rightarrow> start_task_log data t]\<rparr>
      in ordered_loop rest now
           (if blocking data then ex1\<lparr>dependency := promise\<rparr> else ex1))"

definition execution_start :: "nat \<Rightarrow> execution" where
  "execution_start now =
     \<lparr>promises = [], dependency = Some (now, Resolved VUndefined), started = [], logged = []\<rparr>"

definition executeOrderedPromises_run :: "OrderedPromiseData list \<Rightarrow> nat \<Rightarrow> execution" where
  "executeOrderedPromises_run orderedPromisesData now =
     ordered_loop orderedPromisesData now (execution_start now)"

definition executeOrderedPromises :: "OrderedPromiseData list \<Rightarrow> nat \<Rightarrow> jsval promise" where
  "executeOrderedPromises orderedPromisesData now =
     allPromises (JArray (promises (executeOrderedPromises_run orderedPromisesData now))) now"

section \<open>timeoutPromise\<close>

text \<open>
  \<^verbatim>\<open>
  timeoutPromise<T>(promise: Promise<T>, time: number): Promise<T> {
      return new Promise((resolve, reject): void => {
          let timedOut = false;
          const resolveBeforeTimeout = () => {
              if (timedOut) {
                  return;
              }
              resolve();
          };
          const timeout = setTimeout(
              () => {
                  reject({ timeout: true });
                  timedOut = true;
              },
              time,
          );

          promise
              .then(resolveBeforeTimeout)
              .catch(reject)
              .finally(() => clearTimeout(timeout));
      });
  }
  \<close>
  The state of one call: the returned promise, the flag \<^verbatim>\<open>timedOut\<close>, whether the timer
  is still pending, and how often the timer's callback has run. Two things can happen to
  it: the delay of the timer elapses, or the original promise settles.
\<close>

record timeout_state =
  returned :: "jsval promise"
  timedOut :: bool
  timeout_pending :: bool
  timer_runs :: nat

datatype timeout_event = Elapses nat | Settles nat "jsval outcome"

definition timeout_marker :: jsval where
  "timeout_marker = VObj [(''timeout'', VBool True)]"

definition timeoutPromise_start :: timeout_state where
  "timeoutPromise_start =
     \<lparr>returned = None, timedOut = False, timeout_pending = True, timer_runs = 0\<rparr>"

text \<open>The callback of \<^verbatim>\<open>setTimeout\<close>; a timer that was cleared or has fired does not run it.\<close>

definition timer_callback :: "nat \<Rightarrow> timeout_state \<Rightarrow> timeout_state" where
  "timer_callback t st =
     st\<lparr>returned := native_settle t (Rejected timeout_marker) (returned st),
        timedOut := True,
        timeout_pending := False,
        timer_runs := Suc (timer_runs st)\<rparr>"

definition resolveBeforeTimeout :: "nat \<Rightarrow> timeout_state \<Rightarrow> timeout_state" where
  "resolveBeforeTimeout t st =
     (if timedOut st then st
      else st\<lparr>returned := native_settle t (Resolved VUndefined) (returned st)\<rparr>)"

text \<open>The chain \<^verbatim>\<open>then\<close>, \<^verbatim>\<open>catch\<close>, \<^verbatim>\<open>finally\<close> on the original promise.\<close>

fun promise_reactions :: "nat \<Rightarrow> jsval outcome \<Rightarrow> timeout_state \<Rightarrow> timeout_state" where
  "promise_reactions t (Resolved v) st = (resolveBeforeTimeout t st)\<lparr>timeout_pending := False\<rparr>"
| "promise_reactions t (Rejected e) st =
     st\<lparr>returned := native_settle t (Rejected e) (returned st), timeout_pending := False\<rparr>"

fun timeout_step :: "timeout_event \<Rightarrow> timeout_state \<Rightarrow> timeout_state" where
  "timeout_step (Elapses t) st = (if timeout_pending st then timer_callback t st else st)"
| "timeout_step (Settles t out) st = promise_reactions t out st"

fun timeout_run :: "timeout_event list \<Rightarrow> timeout_state \<Rightarrow> timeout_state" where
  "timeout_run [] st = st"
| "timeout_run (ev # evs) st = timeout_run evs (timeout_step ev st)"

text \<open>
  The events of a call at tick \<open>now\<close>: the timer elapses at \<open>now + time\<close>; the reactions
  of the original promise run when it settles. When both fall into the same tick the
  reactions are taken first, as for a promise that has already settled when
  \<^verbatim>\<open>timeoutPromise\<close> is called with a delay of 0; for a promise settled by another timer
  the order at a tie is the order in which the timers were registered, which the model
  does not record, and the properties below are stated for ticks strictly before or
  strictly after the deadline. The delay is a number of ticks below the limit of
  \<^verbatim>\<open>setTimeout\<close> (2^31 - 1 ms), above which the platform shortens it.
\<close>

definition timeout_events :: "jsval promise \<Rightarrow> nat \<Rightarrow> nat \<Rightarrow> timeout_event list" where
  "timeout_events promise time now =
     (case observe now promise of
        None \<Rightarrow> [Elapses (now + time)]
      | Some (t, out) \<Rightarrow>
          if t \<le> now + time then [Settles t out, Elapses (now + time)]
          else [Elapses (now + time), Settles t out])"

definition timeoutPromise :: "jsval promise \<Rightarrow> nat \<Rightarrow> nat \<Rightarrow> jsval promise" where
  "timeoutPromise promise time now =
     returned (timeout_run (timeout_events promise time now) timeoutPromise_start)"

section \<open>promiseDefer\<close>

text \<open>
  \<^verbatim>\<open>
  export type PromiseDefer<T> = {
      promise: Promise<T>;
      resolve: (value?: T) => void;
      reject: (reason?: unknown) => void;
  };

  promiseDefer<T>(): PromiseDefer<T> {
      const deferred: Partial<PromiseDefer<T>> = {};
      deferred.promise = new Promise((resolve, reject): void => {
          deferred.resolve = resolve;
          deferred.reject = reject;
      });
      return deferred as PromiseDefer<T>;
  }
  \<close>
  The two functions stored in the object are the resolving functions of the new native
  promise, so a call of one of them acts on that promise. A call is made at some tick.
\<close>

record PromiseDefer =
  promise :: "jsval promise"

definition promiseDefer :: PromiseDefer where
  "promiseDefer = \<lparr>promise = None\<rparr>"

definition resolve :: "nat \<Rightarrow> jsval \<Rightarrow> PromiseDefer \<Rightarrow> PromiseDefer" where
  "resolve t v deferred = deferred\<lparr>promise := native_settle t (Resolved v) (promise deferred)\<rparr>"

definition reject :: "nat \<Rightarrow> jsval \<Rightarrow> PromiseDefer \<Rightarrow> PromiseDefer" where
  "reject t reason deferred = deferred\<lparr>promise := native_settle t (Rejected reason) (promise deferred)\<rparr>"

datatype defer_call = CallResolve nat jsval | CallReject nat jsval

fun apply_call :: "defer_call \<Rightarrow> PromiseDefer \<Rightarrow> PromiseDefer" where
  "apply_call (CallResolve t v) deferred = resolve t v deferred"
| "apply_call (CallReject t reason) deferred = reject t reason deferred"

fun defer_calls :: "defer_call list \<Rightarrow> PromiseDefer \<Rightarrow> PromiseDefer" where
  "defer_calls [] deferred = deferred"
| "defer_calls (c # cs) deferred = defer_calls cs (apply_call c deferred)"

fun call_outcome :: "defer_call \<Rightarrow> nat \<times> jsval outcome" where
  "call_outcome (CallResolve t v) = (t, Resolved v)"
| "call_outcome (CallReject t reason) = (t, Rejected reason)"

section \<open>Auxiliary notions for the proofs\<close>

text \<open>
  The registry in which every name that was asked for \<open>c name\<close> times holds the number
  \<open>c name\<close>, and every other name has no entry.
\<close>

definition registry_of :: "(string \<Rightarrow> nat) \<Rightarrow> uniqueIds" where
  "registry_of c = (\<lambda>x. if c x = 0 then None else Some (Num (int (c x))))"

text \<open>
  The tick at which the last promise of a list settles, counted from the tick of the
  call, and the value \<^verbatim>\<open>getPromiseError\<close> extracts from a promise.
\<close>

fun last_tick :: "nat \<Rightarrow> 'a promise list \<Rightarrow> nat" where
  "last_tick now [] = now"
| "last_tick now (None # ps) = last_tick now ps"
| "last_tick now (Some (t, out) # ps) = max t (last_tick now ps)"

fun rejection_reason :: "jsval promise \<Rightarrow> jsval" where
  "rejection_reason (Some (t, Rejected e)) = e"
| "rejection_reason p = VUndefined"


definition task_throwing :: "jsval \<Rightarrow> bool \<Rightarrow> OrderedPromiseData" where
  "task_throwing e b = \<lparr>function_task = (\<lambda>t. Throws e), blocking = b\<rparr>"

definition returning_at_once :: "OrderedPromiseData \<Rightarrow> OrderedPromiseData" where
  "returning_at_once data = data\<lparr>function_task := (\<lambda>t. Returns (Some (t, Resolved VUndefined)))\<rparr>"

section \<open>Native promises\<close>

lemma native_settle_settled [simp]: "native_settle t out (Some s) = Some s"
  by (simp add: native_settle_def)

lemma native_settle_pending [simp]: "native_settle t out None = Some (t, out)"
  by (simp add: native_settle_def)

section \<open>Unique identifiers\<close>

lemma ordinary_name_not_proto: "name \<notin> set Object_prototype \<Longrightarrow> name \<noteq> ''__proto__''"
  by (auto simp: Object_prototype_def)

lemma getUniqueId_registry_of:
  assumes "name \<notin> set Object_prototype"
  shows "getUniqueId name (registry_of c) = (Num (int (c name) + 1), registry_of (c(name := Suc (c name))))"
  using assms ordinary_name_not_proto[OF assms]
  by (auto simp: getUniqueId_def registry_of_def get_property_def set_property_def Let_def fun_eq_iff)

lemma getUniqueId_calls_registry_of:
  "set names \<inter> set Object_prototype = {} \<Longrightarrow>
   snd (getUniqueId_calls names (registry_of c)) = registry_of (\<lambda>x. c x + count_list names x)"
proof (induction names arbitrary: c)
  case Nil
  show ?case by simp
next
  case (Cons name names)
  let ?c = "c(name := Suc (c name))"
  from Cons.prems have ord: "name \<notin> set Object_prototype" and rest: "set names \<inter> set Object_prototype = {}"
    by auto
  have eq: "(\<lambda>x. ?c x + count_list names x) = (\<lambda>x. c x + count_list (name # names) x)"
    by (auto simp: fun_eq_iff)
  have "snd (getUniqueId_calls (name # names) (registry_of c)) = snd (getUniqueId_calls names (registry_of ?c))"
    by (simp add: getUniqueId_registry_of[OF ord] split: prod.splits)
  also have "\<dots> = registry_of (\<lambda>x. ?c x + count_list names x)"
    by (rule Cons.IH[OF rest])
  finally show ?case
    by (simp only: eq)
qed

lemma registry_of_empty: "registry_of (\<lambda>x. 0) = Map.empty"
  by (simp add: registry_of_def)

text \<open>
  For names that \<^verbatim>\<open>Object.prototype\<close> does not define, the next call for a name
  returns one more than the number of earlier calls for that same name, whatever calls
  for other such names came in between; three calls for \<^verbatim>\<open>'k'\<close> followed by one for
  \<^verbatim>\<open>'other'\<close> return 1, 2, 3 and 1.
\<close>

lemma getUniqueId_counts_per_name:
  assumes "set names \<inter> set Object_prototype = {}" and "name \<notin> set Object_prototype"
  shows "fst (getUniqueId name (snd (getUniqueId_calls names Map.empty))) = Num (int (count_list names name) + 1)"
proof -
  have "snd (getUniqueId_calls names Map.empty) = registry_of (\<lambda>x. count_list names x)"
    using getUniqueId_calls_registry_of[OF assms(1), of "\<lambda>x. 0"] by (simp add: registry_of_empty)
  then show ?thesis
    by (simp add: getUniqueId_registry_of[OF assms(2)])
qed

lemma getUniqueId_example:
  "fst (getUniqueId_calls [''k'', ''k'', ''k'', ''other''] Map.empty) = [Num 1, Num 2, Num 3, Num 1]"
  by (simp add: getUniqueId_def get_property_def set_property_def Object_prototype_def Let_def)

text \<open>
  Claim C7. The claim asks that for every name the n-th call returns n. For a name that
  \<^verbatim>\<open>Object.prototype\<close> defines, the first read gives the inherited property, which is
  truthy, so the counter is not set to 0 and \<^verbatim>\<open>++\<close> gives NaN: the calls for
  \<^verbatim>\<open>'constructor'\<close> return NaN, 1, 2, and every call for \<^verbatim>\<open>'__proto__'\<close> returns NaN.
\<close>

theorem getUniqueId_inherited_name:
  "fst (getUniqueId ''constructor'' Map.empty) = NaN
   \<and> fst (getUniqueId_calls [''constructor'', ''constructor'', ''constructor''] Map.empty) = [NaN, Num 1, Num 2]
   \<and> fst (getUniqueId_calls [''__proto__'', ''__proto__''] Map.empty) = [NaN, NaN]"
  by (simp add: getUniqueId_def get_property_def set_property_def Object_prototype_def Let_def)

section \<open>Ignoring errors\<close>

text \<open>
  Claim C9, as amended. \<^verbatim>\<open>ignoreErrors\<close> on a promise that rejects resolves to the
  fallback when the fallback is a plain value, and to undefined when no fallback is given;
  when the fallback is itself a promise, the returned promise settles as that promise
  does, from the tick of the rejection on. On a promise that resolves it resolves to that
  promise's value, whatever the fallback.
\<close>

theorem ignoreErrors_absorbs:
  "ignoreErrors (Some (t, Rejected error)) (Some (FallbackValue v)) now = Some (max now t, Resolved v)
   \<and> ignoreErrors (Some (t, Rejected error)) None now = Some (max now t, Resolved VUndefined)
   \<and> ignoreErrors (Some (t, Rejected error)) (Some (FallbackPromise q)) now = observe (max now t) q
   \<and> ignoreErrors (Some (t, Resolved result)) fallback' now = Some (max now t, Resolved result)"
  by (simp add: ignoreErrors_def)

text \<open>
  The claim as stated has \<^verbatim>\<open>ignoreErrors\<close> resolve to the fallback whenever one is
  given. With a fallback that is a promise rejected with an error, the returned promise
  rejects with that error.
\<close>

theorem ignoreErrors_promise_fallback_counterexample:
  "ignoreErrors (Some (0, Rejected (Error ''boom'')))
      (Some (FallbackPromise (Some (0, Rejected (Error ''fb''))))) 0
     = Some (0, Rejected (Error ''fb''))"
  by (simp add: ignoreErrors_def)

section \<open>Deferred promises\<close>

lemma defer_calls_settled:
  "promise deferred = Some s \<Longrightarrow> promise (defer_calls cs deferred) = Some s"
proof (induction cs arbitrary: deferred)
  case Nil
  then show ?case by simp
next
  case (Cons c cs)
  then show ?case by (cases c) (simp_all add: resolve_def reject_def)
qed

lemma apply_call_first: "promise (apply_call c promiseDefer) = Some (call_outcome c)"
  by (cases c) (simp_all add: resolve_def reject_def promiseDefer_def)

text \<open>
  Claim C6. Of any sequence of calls of \<^verbatim>\<open>resolve\<close> and \<^verbatim>\<open>reject\<close> on a deferred
  returned by \<^verbatim>\<open>promiseDefer\<close>, only the first takes effect: the promise settles with
  the outcome of the first call, at the tick of that call, and stays so. After
  \<^verbatim>\<open>resolve(1)\<close>, \<^verbatim>\<open>resolve(2)\<close>, \<^verbatim>\<open>reject('x')\<close> the promise is resolved with 1, and
  the two later calls leave the deferred as the first call left it.
\<close>

theorem promiseDefer_first_call_wins:
  "promise (defer_calls (c # cs) promiseDefer) = Some (call_outcome c)
   \<and> promise (defer_calls [] promiseDefer) = None
   \<and> promise (reject t3 (VStr ''x'') (resolve t2 (VNum (Num 2)) (resolve t1 (VNum (Num 1)) promiseDefer)))
       = Some (t1, Resolved (VNum (Num 1)))
   \<and> reject t3 (VStr ''x'') (resolve t2 (VNum (Num 2)) (resolve t1 (VNum (Num 1)) promiseDefer))
       = resolve t1 (VNum (Num 1)) promiseDefer"
proof (intro conjI)
  show "promise (defer_calls (c # cs) promiseDefer) = Some (call_outcome c)"
    using defer_calls_settled[OF apply_call_first] by simp
  show "promise (defer_calls [] promiseDefer) = None"
    by (simp add: promiseDefer_def)
  show "promise (reject t3 (VStr ''x'') (resolve t2 (VNum (Num 2)) (resolve t1 (VNum (Num 1)) promiseDefer)))
       = Some (t1, Resolved (VNum (Num 1)))"
    by (simp add: resolve_def reject_def promiseDefer_def)
  show "reject t3 (VStr ''x'') (resolve t2 (VNum (Num 2)) (resolve t1 (VNum (Num 1)) promiseDefer))
       = resolve t1 (VNum (Num 1)) promiseDefer"
    by (simp add: resolve_def reject_def promiseDefer_def)
qed

section \<open>Waiting for all promises\<close>

text \<open>
  Claim C10. \<^verbatim>\<open>allPromises\<close> called with null or with undefined in place of the array
  returns a promise that is resolved in the tick of the call, exactly as for the empty
  array.
\<close>

theorem allPromises_null_or_undefined:
  "allPromises JNull now = Some (now, Resolved VUndefined)
   \<and> allPromises JUndefined now = Some (now, Resolved VUndefined)
   \<and> allPromises JNull now = allPromises (JArray []) now
   \<and> allPromises JUndefined now = allPromises (JArray []) now"
  by (simp add: allPromises_def)

lemma last_tick_now: "now \<le> last_tick now ps"
  by (induction now ps rule: last_tick.induct) auto


lemma getPromiseError_cases:
  "getPromiseError p now = (case p of None \<Rightarrow> None | Some (t, out) \<Rightarrow> Some (max now t, Resolved (rejection_reason p)))"
  by (cases p; cases "snd (the p)") (auto simp: getPromiseError_def split: prod.splits outcome.splits)

lemma first_rejection_getPromiseError:
  "first_rejection (map (observe now) (map (\<lambda>p. getPromiseError p now) ps)) = None"
proof (induction ps)
  case Nil
  show ?case by simp
next
  case (Cons p ps)
  then show ?case
    by (cases p) (auto simp: getPromiseError_cases)
qed


lemma all_values_getPromiseError_settled:
  "None \<notin> set ps \<Longrightarrow>
   \<exists>t. all_values (map (observe now) (map (\<lambda>p. getPromiseError p now) ps)) = Some (t, map rejection_reason ps)
      \<and> max now t = last_tick now ps"
proof (induction ps)
  case Nil
  then show ?case by simp
next
  case (Cons p ps)
  then obtain t where t: "all_values (map (observe now) (map (\<lambda>p. getPromiseError p now) ps)) = Some (t, map rejection_reason ps)"
    "max now t = last_tick now ps" by auto
  from Cons.prems obtain t' out where p: "p = Some (t', out)" by (cases p) auto
  show ?case using t by (auto simp: p getPromiseError_cases)
qed


lemma allPromises_settled:
  assumes "None \<notin> set ps"
  shows "allPromises (JArray ps) now =
     Some (last_tick now ps,
           if truthy (array_find truthy (map rejection_reason ps))
           then Rejected (array_find truthy (map rejection_reason ps))
           else Resolved VUndefined)"
proof (cases "ps = []")
  case True
  then show ?thesis by (simp add: allPromises_def array_find_def)
next
  case False
  from all_values_getPromiseError_settled[OF assms, of now]
  obtain t where t: "all_values (map (observe now) (map (\<lambda>p. getPromiseError p now) ps)) = Some (t, map rejection_reason ps)"
    "max now t = last_tick now ps" by auto
  have "Promise_all (map (\<lambda>p. getPromiseError p now) ps) now = Some (last_tick now ps, Resolved (map rejection_reason ps))"
    unfolding Promise_all_def by (simp only: first_rejection_getPromiseError t option.case prod.case)
  with False show ?thesis
    by (simp add: allPromises_def Let_def)
qed

lemma array_find_truthy_iff:
  "truthy (array_find truthy xs) \<longleftrightarrow> (\<exists>x \<in> set xs. truthy x)"
  by (induction xs) (auto simp: array_find_def)

lemma array_find_first:
  "\<not> list_ex truthy xs \<Longrightarrow> truthy x \<Longrightarrow> array_find truthy (xs @ x # ys) = x"
  by (induction xs) (auto simp: array_find_def)


lemma allPromises_first_truthy_rejection:
  assumes "None \<notin> set (ps @ Some (t, Rejected e) # qs)" "\<not> list_ex truthy (map rejection_reason ps)" "truthy e"
  shows "allPromises (JArray (ps @ Some (t, Rejected e) # qs)) now = Some (last_tick now (ps @ Some (t, Rejected e) # qs), Rejected e)"
proof -
  have "array_find truthy (map rejection_reason (ps @ Some (t, Rejected e) # qs)) = e"
    using array_find_first[OF assms(2,3)] by simp
  then show ?thesis using allPromises_settled[OF assms(1), of now] assms(3) by simp
qed




text \<open>
  Claim C1. The claim asks that \<^verbatim>\<open>allPromises\<close> rejects whenever a promise of the array
  rejects, with the reason of the first rejected promise. The test \<^verbatim>\<open>!!error\<close> takes a
  falsy rejection reason for a success: a single promise rejected with undefined makes
  \<^verbatim>\<open>allPromises\<close> resolve, and a promise rejected with null followed by one rejected with
  an error makes it reject with the reason of the second.
\<close>

theorem allPromises_falsy_rejection:
  "allPromises (JArray [Some (0, Rejected VUndefined)]) 0 = Some (0, Resolved VUndefined)
   \<and> allPromises (JArray [Some (0, Rejected VNull), Some (0, Rejected (Error ''second''))]) 0
       = Some (0, Rejected (Error ''second''))"
  by (simp add: allPromises_def Promise_all_def getPromiseError_def array_find_def Error_def)

section \<open>Promises with a timeout\<close>

lemma promise_reactions_clears: "timeout_pending (promise_reactions t out st) = False"
  by (cases out) (simp_all add: resolveBeforeTimeout_def)

lemma promise_reactions_timer_runs: "timer_runs (promise_reactions t out st) = timer_runs st"
  by (cases out) (simp_all add: resolveBeforeTimeout_def)

lemma promise_reactions_settled:
  "returned st = Some s \<Longrightarrow> returned (promise_reactions t out st) = Some s"
  by (cases out) (simp_all add: resolveBeforeTimeout_def)

lemma timeout_step_settled:
  "returned st = Some s \<Longrightarrow> returned (timeout_step ev st) = Some s"
  by (cases ev) (simp_all add: timer_callback_def promise_reactions_settled)

lemma timeout_run_settled:
  "returned st = Some s \<Longrightarrow> returned (timeout_run evs st) = Some s"
proof (induction evs arbitrary: st)
  case Nil
  then show ?case by simp
next
  case (Cons ev evs)
  from Cons.prems have "returned (timeout_step ev st) = Some s"
    by (rule timeout_step_settled)
  then show ?case using Cons.IH by simp
qed

lemma timeout_step_cleared:
  "\<not> timeout_pending st \<Longrightarrow>
   \<not> timeout_pending (timeout_step ev st) \<and> timer_runs (timeout_step ev st) = timer_runs st"
  by (cases ev) (simp_all add: promise_reactions_clears promise_reactions_timer_runs)

lemma timeout_run_cleared:
  "\<not> timeout_pending st \<Longrightarrow> timer_runs (timeout_run evs st) = timer_runs st"
proof (induction evs arbitrary: st)
  case Nil
  show ?case by simp
next
  case (Cons ev evs)
  from timeout_step_cleared[OF Cons.prems, of ev] Cons.IH[of "timeout_step ev st"]
  show ?case by simp
qed

lemma timeout_step_Elapses_start:
  "timeout_step (Elapses t) timeoutPromise_start =
     \<lparr>returned = Some (t, Rejected timeout_marker), timedOut = True, timeout_pending = False, timer_runs = 1\<rparr>"
  by (simp add: timeoutPromise_start_def timer_callback_def)

lemma timeout_step_Settles_start:
  "timeout_step (Settles t out) timeoutPromise_start =
     \<lparr>returned = Some (t, case out of Resolved v \<Rightarrow> Resolved VUndefined | Rejected e \<Rightarrow> Rejected e),
      timedOut = False, timeout_pending = False, timer_runs = 0\<rparr>"
  by (cases out) (simp_all add: timeoutPromise_start_def resolveBeforeTimeout_def)

lemma timeout_run_first_Elapses:
  "timeout_run (Elapses t # evs) timeoutPromise_start =
     timeout_run evs \<lparr>returned = Some (t, Rejected timeout_marker), timedOut = True,
                      timeout_pending = False, timer_runs = 1\<rparr>"
  by (simp only: timeout_run.simps timeout_step_Elapses_start)

lemma timeout_run_first_Settles:
  "timeout_run (Settles t out # evs) timeoutPromise_start =
     timeout_run evs \<lparr>returned = Some (t, case out of Resolved v \<Rightarrow> Resolved VUndefined | Rejected e \<Rightarrow> Rejected e),
                      timedOut = False, timeout_pending = False, timer_runs = 0\<rparr>"
  by (simp only: timeout_run.simps timeout_step_Settles_start)

text \<open>
  Claim C5. Whatever happens after the first event of a call of \<^verbatim>\<open>timeoutPromise\<close>,
  the returned promise keeps the outcome that the first event gave it. When the timer
  elapses first, the returned promise is rejected with the timeout marker and a later
  settlement of the original promise changes nothing. When the original promise settles
  first, the timer is cleared and its callback never runs. The callback runs at most once.
\<close>

theorem timeoutPromise_single_outcome:
  "returned (timeout_run (Elapses t # evs) timeoutPromise_start) = Some (t, Rejected timeout_marker)
   \<and> returned (timeout_run (Settles t out # evs) timeoutPromise_start)
       = Some (t, case out of Resolved v \<Rightarrow> Resolved VUndefined | Rejected e \<Rightarrow> Rejected e)
   \<and> timer_runs (timeout_run (Settles t out # evs) timeoutPromise_start) = 0
   \<and> timer_runs (timeout_run (Elapses t # evs) timeoutPromise_start) = 1"
proof (intro conjI)
  show "returned (timeout_run (Elapses t # evs) timeoutPromise_start) = Some (t, Rejected timeout_marker)"
    unfolding timeout_run_first_Elapses by (rule timeout_run_settled) simp
  show "returned (timeout_run (Settles t out # evs) timeoutPromise_start)
       = Some (t, case out of Resolved v \<Rightarrow> Resolved VUndefined | Rejected e \<Rightarrow> Rejected e)"
    unfolding timeout_run_first_Settles by (rule timeout_run_settled) simp
  show "timer_runs (timeout_run (Settles t out # evs) timeoutPromise_start) = 0"
    unfolding timeout_run_first_Settles by (subst timeout_run_cleared) simp_all
  show "timer_runs (timeout_run (Elapses t # evs) timeoutPromise_start) = 1"
    unfolding timeout_run_first_Elapses by (subst timeout_run_cleared) simp_all
qed

text \<open>
  The outcome of \<^verbatim>\<open>timeoutPromise\<close> by the tick at which the original promise settles:
  before the deadline a success gives undefined and a failure passes unchanged; after
  the deadline, or never, the timeout marker is the rejection reason.
\<close>

lemma timeoutPromise_before_deadline:
  "observe now p = Some (t, Resolved v) \<Longrightarrow> t < now + time \<Longrightarrow>
   timeoutPromise p time now = Some (t, Resolved VUndefined)"
  unfolding timeoutPromise_def timeout_events_def
  by (simp add: timeout_run_first_Settles del: timeout_run.simps) simp

lemma timeoutPromise_failure_before_deadline:
  "observe now p = Some (t, Rejected e) \<Longrightarrow> t < now + time \<Longrightarrow>
   timeoutPromise p time now = Some (t, Rejected e)"
  unfolding timeoutPromise_def timeout_events_def
  by (simp add: timeout_run_first_Settles del: timeout_run.simps) simp

lemma timeoutPromise_deadline_first:
  "observe now p = Some (t, out) \<Longrightarrow> now + time < t \<Longrightarrow>
   timeoutPromise p time now = Some (now + time, Rejected timeout_marker)"
  unfolding timeoutPromise_def timeout_events_def
  by (simp add: timeout_run_first_Elapses promise_reactions_settled del: timeout_run.simps) (simp add: promise_reactions_settled)

lemma timeoutPromise_never_settling:
  "timeoutPromise None time now = Some (now + time, Rejected timeout_marker)"
  unfolding timeoutPromise_def timeout_events_def
  by (simp add: timeout_run_first_Elapses del: timeout_run.simps) simp

text \<open>
  Claim C2. The claim asks that the returned promise resolves with the value of the
  original promise when that promise resolves before the deadline. The function
  \<^verbatim>\<open>resolveBeforeTimeout\<close> calls \<^verbatim>\<open>resolve()\<close> without an argument: for a promise that
  resolves with 5 at tick 1 and a delay of 10 ticks, the returned promise resolves at
  tick 1 with undefined, not with 5.
\<close>

theorem timeoutPromise_drops_value:
  "timeoutPromise (Some (1, Resolved (VNum (Num 5)))) 10 0 = Some (1, Resolved VUndefined)
   \<and> Resolved VUndefined \<noteq> Resolved (VNum (Num 5))"
  using timeoutPromise_before_deadline[of 0 "Some (1, Resolved (VNum (Num 5)))" 1 "VNum (Num 5)" 10]
  by simp

section \<open>Ordered execution\<close>







text \<open>
  A task that throws a value other than undefined and null has its message logged, and
  the promises, the start ticks and the overall promise are those of the same list with
  the task returning at once.
\<close>

lemma start_task_caught:
  "function_task data t = Throws e \<Longrightarrow> get_message e = Inr m \<Longrightarrow>
   start_task data t = CbValue VUndefined \<and> start_task_log data t = [m]"
  by (simp add: start_task_def start_task_log_def)

lemma promise_finally_caught:
  assumes "\<And>t. function_task data t = Throws e" and "get_message e = Inr m"
  shows "promise_finally dep (start_task data) now = promise_finally dep (start_task (returning_at_once data)) now"
proof (cases "observe now dep")
  case None
  then show ?thesis by (simp add: promise_finally_def)
next
  case (Some s)
  obtain t out where s: "s = (t, out)" by (cases s)
  have "start_task data t = CbValue VUndefined"
    using start_task_caught[OF assms(1)[of t] assms(2)] by simp
  moreover have "start_task (returning_at_once data) t = CbPromise (Some (t, Resolved VUndefined))"
    by (simp add: start_task_def returning_at_once_def)
  ultimately show ?thesis
    using Some s by (simp add: promise_finally_def)
qed

lemma ordered_loop_same:
  assumes "promises ex = promises ex'" "dependency ex = dependency ex'" "started ex = started ex'"
  shows "promises (ordered_loop ds now ex) = promises (ordered_loop ds now ex')
       \<and> started (ordered_loop ds now ex) = started (ordered_loop ds now ex')"
  using assms
proof (induction ds arbitrary: ex ex')
  case Nil
  then show ?case by simp
next
  case (Cons d ds)
  show ?case
    unfolding ordered_loop.simps Let_def
    by (rule Cons.IH) (simp_all add: Cons.prems)
qed

lemma ordered_loop_caught:
  assumes "\<And>t. function_task data t = Throws e" and "get_message e = Inr m"
  shows "promises (ordered_loop (before @ data # rest) now ex)
           = promises (ordered_loop (before @ returning_at_once data # rest) now ex)
       \<and> started (ordered_loop (before @ data # rest) now ex)
           = started (ordered_loop (before @ returning_at_once data # rest) now ex)"
proof (induction before arbitrary: ex)
  case Nil
  have b: "blocking (returning_at_once data) = blocking data"
    by (simp add: returning_at_once_def)
  show ?case
    unfolding append_Nil ordered_loop.simps Let_def
    by (rule ordered_loop_same) (simp_all add: promise_finally_caught[OF assms] b)
next
  case (Cons d before)
  show ?case
    unfolding append_Cons ordered_loop.simps Let_def
    by (rule Cons.IH)
qed

lemma executeOrderedPromises_caught:
  assumes "\<And>t. function_task data t = Throws e" and "get_message e = Inr m"
  shows "executeOrderedPromises (before @ data # rest) now
           = executeOrderedPromises (before @ returning_at_once data # rest) now"
  unfolding executeOrderedPromises_def executeOrderedPromises_run_def
  using ordered_loop_caught[OF assms] by simp

text \<open>
  Claim C4. The claim asks that a task that throws when it is started never makes the
  overall promise reject. For a task that throws undefined, the handler's own
  \<^verbatim>\<open>e.message\<close> throws a TypeError before anything is logged, the promise made by
  \<^verbatim>\<open>finally\<close> rejects with it, and so does the overall promise; with the task returning
  at once instead, the overall promise resolves.
\<close>

theorem executeOrderedPromises_throw_undefined:
  "executeOrderedPromises [task_throwing VUndefined False] 0 = Some (0, Rejected TypeError)
   \<and> logged (executeOrderedPromises_run [task_throwing VUndefined False] 0) = [[]]
   \<and> executeOrderedPromises [returning_at_once (task_throwing VUndefined False)] 0 = Some (0, Resolved VUndefined)"
  by (simp add: executeOrderedPromises_def executeOrderedPromises_run_def execution_start_def
        Let_def task_throwing_def returning_at_once_def promise_finally_def start_task_def start_task_log_def
        allPromises_def Promise_all_def getPromiseError_def array_find_def TypeError_def)

end
